theory Spec2Isabelle
  imports Main
begin

section \<open>The corpus extraction script \<^verbatim>\<open>dcs_wrapper.py\<close>\<close>

text \<open>
  The script loads \<^verbatim>\<open>dcs_sentences.json\<close>, keeps the documents whose \<^verbatim>\<open>_id\<close> starts with
  \<^verbatim>\<open>sentence_\<close>, and writes for each of them the \<^verbatim>\<open>dcsId\<close>, the \<^verbatim>\<open>text\<close> and the
  transliterated roots of its \<^verbatim>\<open>dcsAnalysisDecomposition\<close> to \<^verbatim>\<open>sent_roots.txt\<close>.

  The model starts from the value \<^verbatim>\<open>ujson.load\<close> returned and ends with the sequence of
  strings handed to \<^verbatim>\<open>out.write\<close>. Python is dynamically typed, so the loaded value is
  a value of one type \<open>json\<close>, and every operation of the script that Python can refuse
  (a missing key, a value of the wrong type, an unbound variable) returns that exception
  as a value. The semantics is Python 3's.
\<close>

subsection \<open>Loaded values\<close>

text \<open>
  A string is held in its UTF-8 encoding, the encoding in which both files are opened
  (\<^verbatim>\<open>codecs.open(..., "utf8")\<close>). A dict is the list of its items in insertion order; the
  keys of a loaded dict are distinct. Numbers with a fraction or an exponent (Python
  floats) are not modelled.
\<close>

datatype json =
    JNull
  | JBool bool
  | JInt int
  | JStr string
  | JArr "json list"
  | JObj "(string \<times> json) list"

datatype error = KeyError | TypeError | AttributeError | NameError

subsection \<open>The Python operations the script uses\<close>

text \<open>\<^verbatim>\<open>s.startswith(p)\<close>.\<close>

fun startswith :: "string \<Rightarrow> string \<Rightarrow> bool" where
  "startswith s [] = True"
| "startswith [] (p # ps) = False"
| "startswith (c # cs) (p # ps) = (c = p \<and> startswith cs ps)"

text \<open>\<^verbatim>\<open>k in t\<close> for two strings: \<open>k\<close> occurs in \<open>t\<close>.\<close>

fun substring :: "string \<Rightarrow> string \<Rightarrow> bool" where
  "substring k [] = (k = [])"
| "substring k (c # cs) = (startswith (c # cs) k \<or> substring k cs)"

text \<open>
  The one-character strings a \<^verbatim>\<open>for\<close> loop over a string yields: in the UTF-8 encoding a
  character is a lead byte and the continuation bytes (\<open>0x80\<close> to \<open>0xBF\<close>) after it.
\<close>

definition is_continuation :: "char \<Rightarrow> bool" where
  "is_continuation c = (128 \<le> (of_char c :: nat) \<and> (of_char c :: nat) < 192)"

fun utf8_chars :: "string \<Rightarrow> string list" where
  "utf8_chars [] = []"
| "utf8_chars (c # cs) =
     (case utf8_chars cs of
        [] \<Rightarrow> [[c]]
      | w # ws \<Rightarrow> if is_continuation (hd w) then (c # w) # ws else [c] # w # ws)"

text \<open>\<^verbatim>\<open>v[k]\<close> for a string key \<open>k\<close>: only a dict can be indexed by a string.\<close>

fun getitem :: "json \<Rightarrow> string \<Rightarrow> error + json" where
  "getitem (JObj ms) k = (case map_of ms k of None \<Rightarrow> Inl KeyError | Some v \<Rightarrow> Inr v)"
| "getitem v k = Inl TypeError"

text \<open>
  \<^verbatim>\<open>k in v\<close> for a string \<open>k\<close>: a key of a dict, an element of a list, a substring of a
  string; any other value is not a container.
\<close>

fun contains :: "string \<Rightarrow> json \<Rightarrow> error + bool" where
  "contains k (JObj ms) = Inr (map_of ms k \<noteq> None)"
| "contains k (JArr xs) = Inr (JStr k \<in> set xs)"
| "contains k (JStr t) = Inr (substring k t)"
| "contains k v = Inl TypeError"

text \<open>
  The values a \<^verbatim>\<open>for\<close> loop over \<open>v\<close> runs through: the elements of a list, the keys of
  a dict, the characters of a string.
\<close>

fun iter :: "json \<Rightarrow> error + json list" where
  "iter (JArr xs) = Inr xs"
| "iter (JObj ms) = Inr (map (\<lambda>m. JStr (fst m)) ms)"
| "iter (JStr t) = Inr (map JStr (utf8_chars t))"
| "iter v = Inl TypeError"

text \<open>
  \<^verbatim>\<open>str(v)\<close>. The text of a list or a dict is Python's \<^verbatim>\<open>repr\<close> of it, which the
  script does not define: it is the parameter \<open>rp\<close>.
\<close>

definition digit :: "nat \<Rightarrow> char" where
  "digit d = ''0123456789'' ! d"

fun str_nat :: "nat \<Rightarrow> string" where
  "str_nat n = (if n < 10 then [digit n] else str_nat (n div 10) @ [digit (n mod 10)])"

declare str_nat.simps [simp del]

definition str_int :: "int \<Rightarrow> string" where
  "str_int i = (if i < 0 then CHR ''-'' # str_nat (nat (- i)) else str_nat (nat i))"

fun str :: "(json \<Rightarrow> string) \<Rightarrow> json \<Rightarrow> string" where
  "str rp JNull = ''None''"
| "str rp (JBool b) = (if b then ''True'' else ''False'')"
| "str rp (JInt i) = str_int i"
| "str rp (JStr t) = t"
| "str rp v = rp v"

subsection \<open>\<^verbatim>\<open>iter_sentences\<close>\<close>

text \<open>The test \<^verbatim>\<open>doc["_id"].startswith("sentence_")\<close>; only a string has \<^verbatim>\<open>startswith\<close>.\<close>

definition is_sentence :: "json \<Rightarrow> error + bool" where
  "is_sentence doc =
     (case getitem doc ''_id'' of
        Inl e \<Rightarrow> Inl e
      | Inr (JStr i) \<Rightarrow> Inr (startswith i ''sentence_'')
      | Inr v \<Rightarrow> Inl AttributeError)"

text \<open>
  The loop \<^verbatim>\<open>for doc in doc_list: if ...: yield doc\<close>. A generator is lazy: it hands
  over the documents one by one and raises, if it does, after the ones it yielded
  before. The result is the documents yielded, in order, and the exception that ended
  the iteration, if any.
\<close>

fun sentences :: "json list \<Rightarrow> json list \<times> error option" where
  "sentences [] = ([], None)"
| "sentences (doc # rest) =
     (case is_sentence doc of
        Inl e \<Rightarrow> ([], Some e)
      | Inr b \<Rightarrow>
          (if b then (doc # fst (sentences rest), snd (sentences rest))
           else sentences rest))"

text \<open>
  \<^verbatim>\<open>iter_sentences()\<close>, from the loaded value \<open>loaded\<close>: \<^verbatim>\<open>doc_list = ujson.load(f)["docs"]\<close>,
  then the loop over \<open>doc_list\<close>.
\<close>

definition iter_sentences :: "json \<Rightarrow> json list \<times> error option" where
  "iter_sentences loaded =
     (case getitem loaded ''docs'' of
        Inl e \<Rightarrow> ([], Some e)
      | Inr doc_list \<Rightarrow>
          (case iter doc_list of
             Inl e \<Rightarrow> ([], Some e)
           | Inr docs \<Rightarrow> sentences docs))"

subsection \<open>The main loop\<close>

text \<open>The line feed the script ends each line with.\<close>

abbreviation nl :: char where
  "nl \<equiv> CHR 0x0A"

text \<open>
  The inner loop \<^verbatim>\<open>for group in decomp: if "root" in group: s += " " + group["root"]\<close>,
  from the accumulator \<open>s\<close>. Adding a value that is not a string to \<^verbatim>\<open>" "\<close> is a
  \<^verbatim>\<open>TypeError\<close>.
\<close>

fun inner_loop :: "string \<Rightarrow> json list \<Rightarrow> error + string" where
  "inner_loop s [] = Inr s"
| "inner_loop s (grp # rest) =
     (case contains ''root'' grp of
        Inl e \<Rightarrow> Inl e
      | Inr b \<Rightarrow>
          (if b then
             (case getitem grp ''root'' of
                Inl e \<Rightarrow> Inl e
              | Inr (JStr r) \<Rightarrow> inner_loop (s @ '' '' @ r) rest
              | Inr v \<Rightarrow> Inl TypeError)
           else inner_loop s rest))"

text \<open>The outer loop \<^verbatim>\<open>for decomp in doc["dcsAnalysisDecomposition"]\<close>.\<close>

fun outer_loop :: "string \<Rightarrow> json list \<Rightarrow> error + string" where
  "outer_loop s [] = Inr s"
| "outer_loop s (decomp # rest) =
     (case iter decomp of
        Inl e \<Rightarrow> Inl e
      | Inr grps \<Rightarrow>
          (case inner_loop s grps of
             Inl e \<Rightarrow> Inl e
           | Inr s' \<Rightarrow> outer_loop s' rest))"

text \<open>
  The extraction of one document, lines 38 to 42: \<^verbatim>\<open>s = ""\<close> and the two loops. The
  result is the value of \<open>s\<close> after them.
\<close>

definition extract_roots :: "json \<Rightarrow> error + string" where
  "extract_roots doc =
     (case getitem doc ''dcsAnalysisDecomposition'' of
        Inl e \<Rightarrow> Inl e
      | Inr d \<Rightarrow>
          (case iter d of
             Inl e \<Rightarrow> Inl e
           | Inr decomps \<Rightarrow> outer_loop [] decomps))"

text \<open>
  The state of the main loop is the list \<open>out\<close> of the strings written so far, one per
  call of \<^verbatim>\<open>out.write\<close>, and the global variable \<open>s\<close>, which is \<open>None\<close> as long as no
  assignment has bound it. The file holds the concatenation of \<open>out\<close>.

  \<open>tr\<close> stands for \<^verbatim>\<open>sanscript.transliterate(_, sanscript.IAST, sanscript.SLP1)\<close>, a
  function of the library \<^verbatim>\<open>indic_transliteration\<close>.

  The last two lines of the loop body: reading \<open>s\<close> while it is unbound is a
  \<^verbatim>\<open>NameError\<close>.
\<close>

definition write_roots ::
  "(string \<Rightarrow> string) \<Rightarrow> string list \<Rightarrow> string option \<Rightarrow> string list \<times> (error + string option)" where
  "write_roots tr out s =
     (case s of
        None \<Rightarrow> (out, Inl NameError)
      | Some a \<Rightarrow> (out @ [tr a @ [nl]], Inr (Some a)))"

text \<open>
  The body of the main loop for one document. What was written before an exception
  stays written.
\<close>

definition body ::
  "(string \<Rightarrow> string) \<Rightarrow> (json \<Rightarrow> string) \<Rightarrow> string list \<Rightarrow> string option \<Rightarrow> json
     \<Rightarrow> string list \<times> (error + string option)" where
  "body tr rp out s doc =
     (case contains ''dcsAnalysisDecomposition'' doc of
        Inl e \<Rightarrow> (out, Inl e)
      | Inr b \<Rightarrow>
          (if b then
             (case getitem doc ''dcsId'' of
                Inl e \<Rightarrow> (out, Inl e)
              | Inr i \<Rightarrow>
                  (case getitem doc ''text'' of
                     Inl e \<Rightarrow> (out @ [str rp i @ '', ''], Inl e)
                   | Inr (JStr t) \<Rightarrow>
                       (case extract_roots doc of
                          Inl e \<Rightarrow> (out @ [str rp i @ '', '', t @ '', ''], Inl e)
                        | Inr a \<Rightarrow> write_roots tr (out @ [str rp i @ '', '', t @ '', '']) (Some a))
                   | Inr v \<Rightarrow> (out @ [str rp i @ '', ''], Inl TypeError)))
           else write_roots tr out s))"

text \<open>
  The loop \<^verbatim>\<open>for i,doc in enumerate(iter_sentences())\<close> over the documents yielded: the
  strings written, and the exception that stopped it or the final value of \<open>s\<close>.
\<close>

fun main_loop ::
  "(string \<Rightarrow> string) \<Rightarrow> (json \<Rightarrow> string) \<Rightarrow> string list \<Rightarrow> string option \<Rightarrow> json list
     \<Rightarrow> string list \<times> (error + string option)" where
  "main_loop tr rp out s [] = (out, Inr s)"
| "main_loop tr rp out s (doc # rest) =
     (case body tr rp out s doc of
        (out', Inl e) \<Rightarrow> (out', Inl e)
      | (out', Inr s') \<Rightarrow> main_loop tr rp out' s' rest)"

text \<open>
  A run of the script on the documents the generator goes through: the main loop
  consumes what the generator yields, from an empty file and an unbound \<open>s\<close>, and the
  generator's exception, if any, comes after the last document it yielded. The result is
  the strings written and the uncaught exception, if the run ended with one.
\<close>

definition finish ::
  "string list \<times> (error + string option) \<Rightarrow> error option \<Rightarrow> string list \<times> error option" where
  "finish r e = (case snd r of Inl e' \<Rightarrow> (fst r, Some e') | Inr s \<Rightarrow> (fst r, e))"

definition run ::
  "(string \<Rightarrow> string) \<Rightarrow> (json \<Rightarrow> string) \<Rightarrow> json list \<Rightarrow> string list \<times> error option" where
  "run tr rp docs =
     finish (main_loop tr rp [] None (fst (sentences docs))) (snd (sentences docs))"

text \<open>The whole script, from the value loaded.\<close>

definition script ::
  "(string \<Rightarrow> string) \<Rightarrow> (json \<Rightarrow> string) \<Rightarrow> json \<Rightarrow> string list \<times> error option" where
  "script tr rp loaded =
     finish (main_loop tr rp [] None (fst (iter_sentences loaded))) (snd (iter_sentences loaded))"

text \<open>The text of the output file after the writes \<open>out\<close>.\<close>

definition file_text :: "string list \<Rightarrow> string" where
  "file_text out = concat out"

section \<open>Notions of the specification\<close>

text \<open>
  The data model's document: a mapping with an identifier field that is a string.
\<close>

definition has_identifier :: "json \<Rightarrow> bool" where
  "has_identifier doc = (case getitem doc ''_id'' of Inr (JStr i) \<Rightarrow> True | _ \<Rightarrow> False)"

text \<open>
  The data model's decomposition: a sequence of groups, each a sequence of
  token-mappings, each a mapping that has no \<^verbatim>\<open>root\<close> or has a string there.
\<close>

definition token_mapping :: "json \<Rightarrow> bool" where
  "token_mapping g =
     (case g of
        JObj ms \<Rightarrow>
          (case map_of ms ''root'' of None \<Rightarrow> True | Some (JStr r) \<Rightarrow> True | Some v \<Rightarrow> False)
      | _ \<Rightarrow> False)"

definition decomposition :: "json list \<Rightarrow> bool" where
  "decomposition decomps =
     list_all (\<lambda>decomp. case decomp of JArr gs \<Rightarrow> list_all token_mapping gs | _ \<Rightarrow> False) decomps"

text \<open>
  The root values of a decomposition, in outer-group-then-inner-token order: one for
  each token-mapping that bears a root.
\<close>

definition root_of :: "json \<Rightarrow> string list" where
  "root_of g = (case getitem g ''root'' of Inr (JStr r) \<Rightarrow> [r] | _ \<Rightarrow> [])"

definition roots_of :: "json list \<Rightarrow> string list" where
  "roots_of decomps =
     concat (map (\<lambda>decomp. case decomp of JArr gs \<Rightarrow> concat (map root_of gs) | _ \<Rightarrow> []) decomps)"

text \<open>The concatenation of the roots, each prefixed by a single space.\<close>

definition join_roots :: "string list \<Rightarrow> string" where
  "join_roots rs = concat (map (\<lambda>r. '' '' @ r) rs)"

text \<open>
  The space-separated tokens of a string: its fields between spaces
  (\<^verbatim>\<open>t.split(" ")\<close>), the empty ones left out.
\<close>

fun split_spaces :: "string \<Rightarrow> string list" where
  "split_spaces [] = [[]]"
| "split_spaces (c # cs) =
     (if c = CHR '' '' then [] # split_spaces cs
      else (case split_spaces cs of [] \<Rightarrow> [[c]] | w # ws \<Rightarrow> (c # w) # ws))"

definition space_tokens :: "string \<Rightarrow> string list" where
  "space_tokens t = filter (\<lambda>w. w \<noteq> []) (split_spaces t)"

text \<open>
  The lines of the output: a write ends a line when its last character is the line
  feed, and the file has as many lines as it has line feeds.
\<close>

definition ends_line :: "string \<Rightarrow> bool" where
  "ends_line w = (w \<noteq> [] \<and> last w = nl)"

definition lines_written :: "string list \<Rightarrow> nat" where
  "lines_written out = length (filter ends_line out)"

definition line_count :: "string \<Rightarrow> nat" where
  "line_count t = count_list t nl"

subsection \<open>The transliterator\<close>

text \<open>
  \<^verbatim>\<open>sanscript.transliterate\<close> and its scheme tables belong to the library
  \<^verbatim>\<open>indic_transliteration\<close>; neither is among the sources. In the model of the script
  above the function is the parameter \<open>tr\<close>. What the specification says of it (section
  4.4) is modelled here: a pure function of the string and the pair of schemes, the
  schemes being given by character-cluster tables. The table of a pair of schemes lists
  the clusters of the source scheme, each with its equivalent in the target scheme.
\<close>

type_synonym table = "(string \<times> string) list"

text \<open>
  Modelled from the spec: the recognized cluster at the head of the input, missing with
  \<^verbatim>\<open>sanscript.transliterate\<close>. A cluster of the table is recognized where it starts the
  rest of the input; of several, the first in the table.
\<close>

definition recognized :: "table \<Rightarrow> string \<Rightarrow> (string \<times> string) option" where
  "recognized tab t = find (\<lambda>e. fst e \<noteq> [] \<and> startswith t (fst e)) tab"

text \<open>
  Modelled from the spec: \<^verbatim>\<open>sanscript.transliterate\<close> for one pair of schemes, missing
  from the sources. It returns the string with each recognized character or cluster
  sequence mapped to the target scheme's equivalent and leaves unrecognized sequences
  unchanged.
\<close>

function transliterate :: "table \<Rightarrow> string \<Rightarrow> string" where
  "transliterate tab [] = []"
| "transliterate tab (c # cs) =
     (case recognized tab (c # cs) of
        None \<Rightarrow> c # transliterate tab cs
      | Some e \<Rightarrow> snd e @ transliterate tab (drop (length (fst e)) (c # cs)))"
  by pat_completeness auto
termination
  by (relation "measure (\<lambda>p. length (snd p))") (auto simp: recognized_def find_Some_iff)

text \<open>
  Modelled from the spec: unmapped input, a character sequence with no mapping. No
  cluster of the table is recognized anywhere in it.
\<close>

fun unmapped :: "table \<Rightarrow> string \<Rightarrow> bool" where
  "unmapped tab [] = True"
| "unmapped tab (c # cs) = (recognized tab (c # cs) = None \<and> unmapped tab cs)"

subsection \<open>Inputs used as examples\<close>

text \<open>
  The text of the specification's first end-to-end scenario, \<^verbatim>\<open>ramah gacchati\<close> with a
  macron on the first \<^verbatim>\<open>a\<close> (U+0101, bytes \<open>C4 81\<close> in UTF-8) and a dot under the \<^verbatim>\<open>h\<close>
  (U+1E25, bytes \<open>E1 B8 A5\<close>).
\<close>

definition ramah_gacchati :: string where
  "ramah_gacchati =
     ''r'' @ [CHR 0xC4, CHR 0x81] @ ''ma'' @ [CHR 0xE1, CHR 0xB8, CHR 0xA5] @ '' gacchati''"

text \<open>
  The document of that scenario,
  \<^verbatim>\<open>{"_id":"sentence_1","dcsId":1,"text":...,"dcsAnalysisDecomposition":[[{"root":"gam"}]]}\<close>,
  and the input \<^verbatim>\<open>{"docs":[...]}\<close> that holds it alone.
\<close>

definition sentence_1 :: json where
  "sentence_1 =
     JObj [(''_id'', JStr ''sentence_1''),
           (''dcsId'', JInt 1),
           (''text'', JStr ramah_gacchati),
           (''dcsAnalysisDecomposition'', JArr [JArr [JObj [(''root'', JStr ''gam'')]]])]"

definition scenario_1 :: json where
  "scenario_1 = JObj [(''docs'', JArr [sentence_1])]"

text \<open>A sentence document with no other field: \<^verbatim>\<open>{"_id":"sentence_2"}\<close>.\<close>

definition bare_sentence :: json where
  "bare_sentence = JObj [(''_id'', JStr ''sentence_2'')]"

text \<open>A document that is not a sentence: \<^verbatim>\<open>{"_id":"meta_1"}\<close>.\<close>

definition meta_1 :: json where
  "meta_1 = JObj [(''_id'', JStr ''meta_1'')]"

text \<open>
  A sentence whose text has a line feed in it and whose decomposition is empty:
  \<^verbatim>\<open>{"_id":"sentence_1","dcsId":1,"text":"a\nb","dcsAnalysisDecomposition":[]}\<close>.
\<close>

definition two_line_sentence :: json where
  "two_line_sentence =
     JObj [(''_id'', JStr ''sentence_1''),
           (''dcsId'', JInt 1),
           (''text'', JStr (''a'' @ [nl] @ ''b'')),
           (''dcsAnalysisDecomposition'', JArr [])]"

text \<open>
  A sentence with one root that has a space in it:
  \<^verbatim>\<open>{"_id":"sentence_1","dcsId":1,"text":"t","dcsAnalysisDecomposition":[[{"root":"a b"}]]}\<close>.
\<close>

definition spaced_root_sentence :: json where
  "spaced_root_sentence =
     JObj [(''_id'', JStr ''sentence_1''),
           (''dcsId'', JInt 1),
           (''text'', JStr ''t''),
           (''dcsAnalysisDecomposition'', JArr [JArr [JObj [(''root'', JStr ''a b'')]]])]"

text \<open>
  A decomposition of three groups, the second empty, with a rootless token-mapping:
  \<^verbatim>\<open>[[{"root":"gam","lemma":"x"},{"lemma":"y"}],[],[{"root":"as"}]]\<close>.
\<close>

definition two_groups :: "json list" where
  "two_groups =
     [JArr [JObj [(''root'', JStr ''gam''), (''lemma'', JStr ''x'')], JObj [(''lemma'', JStr ''y'')]],
      JArr [],
      JArr [JObj [(''root'', JStr ''as'')]]]"

text \<open>
  A table of three clusters: \<^verbatim>\<open>kh\<close> to \<^verbatim>\<open>K\<close>, the long \<^verbatim>\<open>a\<close> (U+0101) to \<^verbatim>\<open>A\<close>, \<^verbatim>\<open>k\<close>
  to itself.
\<close>

definition sample_table :: table where
  "sample_table = [(''kh'', ''K''), ([CHR 0xC4, CHR 0x81], ''A''), (''k'', ''k'')]"

section \<open>Properties\<close>

subsection \<open>Auxiliary facts\<close>

lemma startswith_iff: "startswith s p \<longleftrightarrow> (\<exists>r. s = p @ r)"
  by (induction s p rule: startswith.induct) auto

lemma str_int_1: "str_int 1 = ''1''"
  by (simp add: str_int_def str_nat.simps digit_def)

lemma write_roots_Some: "write_roots tr out (Some a) = (out @ [tr a @ [nl]], Inr (Some a))"
  by (simp add: write_roots_def)

lemma body_absent:
  "contains ''dcsAnalysisDecomposition'' doc = Inr False \<Longrightarrow>
     body tr rp out s doc = write_roots tr out s"
  by (simp add: body_def)

lemma body_Inr_Some: "body tr rp out s doc = (out', Inr s') \<Longrightarrow> s' \<noteq> None"
  by (auto simp: body_def write_roots_def
      split: sum.splits if_splits json.splits option.splits)

lemma body_present_Inr:
  "contains ''dcsAnalysisDecomposition'' doc = Inr True \<Longrightarrow>
     body tr rp out s doc = (out', Inr s') \<Longrightarrow> extract_roots doc = Inr (the s')"
  by (auto simp: body_def write_roots_def
      split: sum.splits if_splits json.splits option.splits)

lemma fst_finish: "fst (finish r e) = fst r"
  by (simp add: finish_def split: sum.splits)

lemma finish_Some: "snd (finish r (Some e)) \<noteq> None"
  by (simp add: finish_def split: sum.splits)

lemma script_run:
  "getitem loaded ''docs'' = Inr (JArr docs) \<Longrightarrow> script tr rp loaded = run tr rp docs"
  by (simp add: script_def run_def iter_sentences_def)

subsection \<open>The example inputs\<close>

lemma sentence_1_body:
  "body tr rp [] None sentence_1 =
     ([''1, '', ramah_gacchati @ '', '', tr '' gam'' @ [nl]], Inr (Some '' gam''))"
  by (simp add: sentence_1_def body_def extract_roots_def write_roots_def str_int_1)

lemma sentence_1_is_sentence: "is_sentence sentence_1 = Inr True"
  by (simp add: sentence_1_def is_sentence_def)

lemma sentence_1_present: "contains ''dcsAnalysisDecomposition'' sentence_1 = Inr True"
  by (simp add: sentence_1_def)

lemma bare_sentence_is_sentence: "is_sentence bare_sentence = Inr True"
  by (simp add: bare_sentence_def is_sentence_def)

lemma bare_sentence_absent: "contains ''dcsAnalysisDecomposition'' bare_sentence = Inr False"
  by (simp add: bare_sentence_def)

lemma meta_1_is_sentence: "is_sentence meta_1 = Inr False"
  by (simp add: meta_1_def is_sentence_def)

lemma scenario_1_sentences: "iter_sentences scenario_1 = ([sentence_1], None)"
  by (simp add: scenario_1_def iter_sentences_def sentence_1_is_sentence)

lemma scenario_1_run:
  "script tr rp scenario_1 = ([''1, '', ramah_gacchati @ '', '', tr '' gam'' @ [nl]], None)"
  by (simp add: script_def scenario_1_sentences sentence_1_body finish_def)

lemma sentence_1_run:
  "run tr rp [sentence_1] = ([''1, '', ramah_gacchati @ '', '', tr '' gam'' @ [nl]], None)"
  by (simp add: run_def sentence_1_is_sentence sentence_1_body finish_def)

lemma bare_sentence_run: "run tr rp [bare_sentence] = ([], Some NameError)"
  by (simp add: run_def bare_sentence_is_sentence body_absent bare_sentence_absent
      write_roots_def finish_def)

lemma two_line_run:
  "run tr rp [two_line_sentence] = ([''1, '', ''a'' @ [nl] @ ''b, '', tr [] @ [nl]], None)"
  by (simp add: run_def two_line_sentence_def is_sentence_def body_def extract_roots_def
      write_roots_def finish_def str_int_1)

subsection \<open>What the generator yields\<close>

lemma is_sentence_True:
  "is_sentence d = Inr True \<longleftrightarrow> (\<exists>r. getitem d ''_id'' = Inr (JStr (''sentence_'' @ r)))"
  by (auto simp: is_sentence_def startswith_iff split: sum.splits json.splits)

lemma has_identifier_is_sentence: "has_identifier d \<Longrightarrow> \<exists>b. is_sentence d = Inr b"
  by (auto simp: has_identifier_def is_sentence_def split: sum.splits json.splits)

lemma sentences_append:
  "sentences (xs @ ys) =
     (case snd (sentences xs) of
        None \<Rightarrow> (fst (sentences xs) @ fst (sentences ys), snd (sentences ys))
      | Some e \<Rightarrow> sentences xs)"
  by (induction xs) (auto split: sum.splits option.splits)

lemma sentences_subset:
  "set (fst (sentences docs)) \<subseteq> {d \<in> set docs. is_sentence d = Inr True}"
  by (induction docs) (auto split: sum.splits)

lemma sentences_filter:
  "list_all has_identifier docs \<Longrightarrow>
     sentences docs = (filter (\<lambda>d. is_sentence d = Inr True) docs, None)"
proof (induction docs)
  case Nil
  show ?case by simp
next
  case (Cons d docs)
  then obtain b where "is_sentence d = Inr b"
    using has_identifier_is_sentence [of d] by auto
  with Cons show ?case by simp
qed

lemma sentences_skip:
  "is_sentence d = Inr False \<Longrightarrow> sentences (pre @ d # post) = sentences (pre @ post)"
  by (simp add: sentences_append [of pre "d # post"] sentences_append [of pre post]
      split: option.splits)

lemma sentences_first:
  "list_all (\<lambda>x. is_sentence x = Inr False) pre \<Longrightarrow> is_sentence d = Inr True \<Longrightarrow>
     sentences (pre @ d # post) = (d # fst (sentences post), snd (sentences post))"
  by (induction pre) auto

lemma sentences_missing:
  "is_sentence d = Inl e \<Longrightarrow>
     sentences (pre @ d # post) =
       (fst (sentences pre), Some (case snd (sentences pre) of None \<Rightarrow> e | Some e' \<Rightarrow> e'))"
  by (simp add: sentences_append [of pre "d # post"] split: option.splits)
    (metis prod.collapse)

lemma length_sentences: "length (fst (sentences docs)) \<le> length docs"
  by (induction docs) (auto split: sum.splits)

subsection \<open>No \<^verbatim>\<open>NameError\<close> but from the unbound accumulator\<close>

lemma getitem_not_NameError: "getitem v k \<noteq> Inl NameError"
  by (cases v) (auto split: option.splits)

lemma contains_not_NameError: "contains k v \<noteq> Inl NameError"
  by (cases v) auto

lemma iter_not_NameError: "iter v \<noteq> Inl NameError"
  by (cases v) auto

lemma inner_loop_not_NameError: "inner_loop s gs \<noteq> Inl NameError"
  by (induction gs arbitrary: s)
    (auto simp: contains_not_NameError getitem_not_NameError split: sum.splits json.splits)

lemma outer_loop_not_NameError: "outer_loop s ds \<noteq> Inl NameError"
  by (induction ds arbitrary: s)
    (auto simp: iter_not_NameError inner_loop_not_NameError split: sum.splits)

lemma extract_roots_not_NameError: "extract_roots doc \<noteq> Inl NameError"
  by (auto simp: extract_roots_def getitem_not_NameError iter_not_NameError
      outer_loop_not_NameError split: sum.splits)

lemma body_NameError:
  "snd (body tr rp out s doc) = Inl NameError \<longleftrightarrow>
     s = None \<and> contains ''dcsAnalysisDecomposition'' doc = Inr False"
  by (auto simp: body_def write_roots_def contains_not_NameError getitem_not_NameError
      extract_roots_not_NameError split: sum.splits json.splits option.splits)

lemma main_loop_bound_not_NameError:
  "snd (main_loop tr rp out (Some a) docs) \<noteq> Inl NameError"
proof (induction docs arbitrary: out a)
  case Nil
  show ?case by simp
next
  case (Cons doc docs)
  obtain out' r where b: "body tr rp out (Some a) doc = (out', r)"
    by (cases "body tr rp out (Some a) doc")
  show ?case
  proof (cases r)
    case (Inl e)
    with b body_NameError [of tr rp out "Some a" doc] show ?thesis by auto
  next
    case (Inr s')
    with b body_Inr_Some [of tr rp out "Some a" doc out' s'] obtain a' where "s' = Some a'"
      by auto
    with b Inr Cons.IH [of out' a'] show ?thesis by simp
  qed
qed

lemma is_sentence_not_NameError: "is_sentence d \<noteq> Inl NameError"
  by (auto simp: is_sentence_def getitem_not_NameError split: sum.splits json.splits)

lemma sentences_not_NameError: "snd (sentences docs) \<noteq> Some NameError"
  by (induction docs) (auto simp: is_sentence_not_NameError split: sum.splits)

lemma main_loop_first:
  "snd (main_loop tr rp [] None (d # ys)) = Inl NameError \<longleftrightarrow>
     contains ''dcsAnalysisDecomposition'' d = Inr False"
proof (cases "contains ''dcsAnalysisDecomposition'' d = Inr False")
  case True
  then show ?thesis by (simp add: body_absent write_roots_def)
next
  case False
  obtain out' r where b: "body tr rp [] None d = (out', r)"
    by (cases "body tr rp [] None d")
  show ?thesis
  proof (cases r)
    case (Inl e)
    with b False body_NameError [of tr rp "[]" None d] show ?thesis by auto
  next
    case (Inr s')
    with b body_Inr_Some [of tr rp "[]" None d out' s'] obtain a' where "s' = Some a'"
      by auto
    with b Inr False main_loop_bound_not_NameError [of tr rp out' a' ys] show ?thesis by simp
  qed
qed

lemma run_NameError:
  "snd (run tr rp docs) = Some NameError \<longleftrightarrow>
     (\<exists>d ys. fst (sentences docs) = d # ys \<and>
        contains ''dcsAnalysisDecomposition'' d = Inr False)"
proof (cases "fst (sentences docs)")
  case Nil
  then show ?thesis
    using sentences_not_NameError [of docs] by (simp add: run_def finish_def)
next
  case (Cons d' ys')
  then show ?thesis
    using main_loop_first [of tr rp d' ys'] sentences_not_NameError [of docs]
    by (auto simp: run_def finish_def split: sum.splits)
qed

subsection \<open>The extraction on a well-formed decomposition\<close>

lemma inner_loop_roots:
  "list_all token_mapping gs \<Longrightarrow>
     inner_loop s gs = Inr (s @ join_roots (concat (map root_of gs)))"
proof (induction gs arbitrary: s)
  case Nil
  show ?case by (simp add: join_roots_def)
next
  case (Cons g gs)
  then show ?case
    by (auto simp: token_mapping_def root_of_def join_roots_def
        split: json.splits option.splits)
qed

lemma outer_loop_roots:
  "decomposition decomps \<Longrightarrow> outer_loop s decomps = Inr (s @ join_roots (roots_of decomps))"
proof (induction decomps arbitrary: s)
  case Nil
  show ?case by (simp add: join_roots_def roots_of_def)
next
  case (Cons d ds)
  from Cons.prems obtain gs where d: "d = JArr gs" and gs: "list_all token_mapping gs"
    and ds: "decomposition ds"
    by (auto simp: decomposition_def split: json.splits)
  have "roots_of (d # ds) = concat (map root_of gs) @ roots_of ds"
    by (simp add: roots_of_def d)
  with Cons.IH [OF ds] inner_loop_roots [OF gs] d show ?case
    by (simp add: join_roots_def)
qed

lemma split_spaces_word:
  "CHR '' '' \<notin> set r \<Longrightarrow> split_spaces (r @ CHR '' '' # t) = r # split_spaces t"
  by (induction r) (auto split: list.splits)

lemma split_spaces_plain: "CHR '' '' \<notin> set r \<Longrightarrow> split_spaces r = [r]"
  by (induction r) (auto split: list.splits)

lemma split_spaces_join:
  "CHR '' '' \<notin> set r \<Longrightarrow> list_all (\<lambda>r. CHR '' '' \<notin> set r) rs \<Longrightarrow>
     split_spaces (r @ join_roots rs) = r # rs"
proof (induction rs arbitrary: r)
  case Nil
  then show ?case by (simp add: join_roots_def split_spaces_plain)
next
  case (Cons a rs)
  have "r @ join_roots (a # rs) = r @ CHR '' '' # (a @ join_roots rs)"
    by (simp add: join_roots_def)
  with Cons show ?case by (simp add: split_spaces_word)
qed

lemma space_tokens_join:
  assumes "list_all (\<lambda>r. r \<noteq> [] \<and> CHR '' '' \<notin> set r) rs"
  shows "space_tokens (join_roots rs) = rs"
proof -
  from assms have a: "list_all (\<lambda>r. CHR '' '' \<notin> set r) rs" and b: "list_all (\<lambda>r. r \<noteq> []) rs"
    by (simp_all add: list_all_iff)
  from split_spaces_join [of "[]" rs] a have "split_spaces (join_roots rs) = [] # rs" by simp
  moreover from b have "filter (\<lambda>w. w \<noteq> []) rs = rs" by (simp add: list_all_iff)
  ultimately show ?thesis by (simp add: space_tokens_def)
qed

subsection \<open>Counting lines\<close>

lemma lines_written_append: "lines_written (xs @ ys) = lines_written xs + lines_written ys"
  by (simp add: lines_written_def)

lemma lines_written_field: "lines_written (out @ [a @ '', '']) = lines_written out"
  by (simp add: lines_written_def ends_line_def)

lemma lines_written_fields:
  "lines_written (out @ [a @ '', '', b @ '', '']) = lines_written out"
  by (simp add: lines_written_def ends_line_def)

lemma write_roots_lines:
  "lines_written out' = lines_written out \<Longrightarrow>
     lines_written (fst (write_roots tr out' s)) \<le> Suc (lines_written out)"
  by (simp add: write_roots_def lines_written_def ends_line_def split: option.splits)

lemma body_lines: "lines_written (fst (body tr rp out s doc)) \<le> Suc (lines_written out)"
  by (auto simp: body_def lines_written_field lines_written_fields
      intro!: write_roots_lines split: sum.splits json.splits)

lemma main_loop_lines:
  "lines_written (fst (main_loop tr rp out s ys)) \<le> lines_written out + length ys"
proof (induction ys arbitrary: out s)
  case Nil
  show ?case by simp
next
  case (Cons doc ys)
  obtain out' r where b: "body tr rp out s doc = (out', r)"
    by (cases "body tr rp out s doc")
  with body_lines [of tr rp out s doc] have le: "lines_written out' \<le> Suc (lines_written out)"
    by simp
  show ?case
  proof (cases r)
    case (Inl e)
    with b le show ?thesis by simp
  next
    case (Inr s')
    with b le Cons.IH [of out' s'] show ?thesis by simp
  qed
qed

lemma run_lines: "lines_written (fst (run tr rp docs)) \<le> length docs"
  using main_loop_lines [of tr rp "[]" None "fst (sentences docs)"] length_sentences [of docs]
  by (simp add: run_def fst_finish lines_written_def)

lemma count_line:
  "nl \<notin> set (butlast w) \<Longrightarrow> count_list w nl = (if ends_line w then 1 else 0)"
proof (cases "w = []")
  case True
  then show ?thesis by (simp add: ends_line_def)
next
  case False
  assume "nl \<notin> set (butlast w)"
  then have "count_list (butlast w) nl = 0" by (simp add: count_list_0_iff)
  moreover from False have "w = butlast w @ [last w]" by simp
  then have "count_list w nl = count_list (butlast w) nl + count_list [last w] nl"
    by (metis count_list_append)
  ultimately show ?thesis using False by (simp add: ends_line_def)
qed

lemma line_count_writes:
  "list_all (\<lambda>w. nl \<notin> set (butlast w)) out \<Longrightarrow>
     line_count (file_text out) = lines_written out"
  by (induction out)
    (simp_all add: line_count_def file_text_def lines_written_def count_line)

subsection \<open>The transliterator on unmapped input\<close>

lemma unmapped_id: "unmapped tab t \<Longrightarrow> transliterate tab t = t"
  by (induction t) auto

section \<open>The claims\<close>

text \<open>
  In the closed statements below the library's transliteration is instantiated by the
  identity, which agrees with it on the strings of these examples (\<^verbatim>\<open>" gam"\<close> is the same
  in IAST and in SLP1, and the empty string stays empty), and the text of lists and dicts
  by a constant, which these examples never ask for (their \<^verbatim>\<open>dcsId\<close> is a number).
\<close>

text \<open>
  C1 (amended). A sentence document without \<^verbatim>\<open>dcsAnalysisDecomposition\<close> that the loop
  reaches when \<open>s\<close> is bound to \<open>a\<close> gets exactly one write, the transliteration of \<open>a\<close>
  and a line feed, with no \<^verbatim>\<open>dcsId\<close> and no \<^verbatim>\<open>text\<close>, and \<open>s\<close> stays \<open>a\<close>: nothing is
  extracted. After a document \<open>prev\<close> whose body ended normally, \<open>a\<close> is the value that
  body left, and when \<open>prev\<close> has the field it is the roots extracted from \<open>prev\<close>.
\<close>

theorem stale_roots:
  "contains ''dcsAnalysisDecomposition'' doc = Inr False \<Longrightarrow>
     body tr rp out (Some a) doc = (out @ [tr a @ [nl]], Inr (Some a)) \<and>
     (body tr rp out0 s0 prev = (out, Inr (Some a)) \<longrightarrow>
        main_loop tr rp out0 s0 [prev, doc] = (out @ [tr a @ [nl]], Inr (Some a))) \<and>
     (body tr rp out0 s0 prev = (out, Inr (Some a)) \<and>
        contains ''dcsAnalysisDecomposition'' prev = Inr True \<longrightarrow>
        extract_roots prev = Inr a)"
  using body_present_Inr [of prev tr rp out0 s0 out "Some a"]
  by (simp add: body_absent write_roots_Some)

theorem stale_roots_witness:
  "contains ''dcsAnalysisDecomposition'' bare_sentence = Inr False \<and>
   body id (\<lambda>v. []) [] None sentence_1 =
     ([''1, '', ramah_gacchati @ '', '', '' gam'' @ [nl]], Inr (Some '' gam'')) \<and>
   contains ''dcsAnalysisDecomposition'' sentence_1 = Inr True \<and>
   body id (\<lambda>v. []) [''1, '', ramah_gacchati @ '', '', '' gam'' @ [nl]] (Some '' gam'')
       bare_sentence =
     ([''1, '', ramah_gacchati @ '', '', '' gam'' @ [nl], '' gam'' @ [nl]],
      Inr (Some '' gam'')) \<and>
   main_loop id (\<lambda>v. []) [] None [sentence_1, bare_sentence] =
     ([''1, '', ramah_gacchati @ '', '', '' gam'' @ [nl], '' gam'' @ [nl]],
      Inr (Some '' gam'')) \<and>
   extract_roots sentence_1 = Inr '' gam''"
proof -
  have absent: "contains ''dcsAnalysisDecomposition'' bare_sentence = Inr False"
    by (rule bare_sentence_absent)
  have prev: "body id (\<lambda>v. []) [] None sentence_1 =
     ([''1, '', ramah_gacchati @ '', '', '' gam'' @ [nl]], Inr (Some '' gam''))"
    by (simp add: sentence_1_body)
  have present: "contains ''dcsAnalysisDecomposition'' sentence_1 = Inr True"
    by (rule sentence_1_present)
  from stale_roots [OF absent, of id "\<lambda>v. []"
      "[''1, '', ramah_gacchati @ '', '', '' gam'' @ [nl]]" "'' gam''" "[]" None sentence_1]
    absent prev present
  show ?thesis by simp
qed

text \<open>
  C1 as stated fails when no earlier document has bound \<open>s\<close>: on the input
  \<^verbatim>\<open>{"docs":[{"_id":"sentence_2"}]}\<close> the sentence document has no decomposition field, and
  the script writes nothing for it and ends with a \<^verbatim>\<open>NameError\<close>.
\<close>

theorem stale_roots_counterexample:
  "is_sentence bare_sentence = Inr True \<and>
   contains ''dcsAnalysisDecomposition'' bare_sentence = Inr False \<and>
   script id (\<lambda>v. []) (JObj [(''docs'', JArr [bare_sentence])]) = ([], Some NameError)"
  by (simp add: script_def iter_sentences_def finish_def bare_sentence_is_sentence
      bare_sentence_absent body_absent write_roots_def)

text \<open>
  C2 (amended). On the input of the first end-to-end scenario, with a transliteration
  that leaves \<^verbatim>\<open>" gam"\<close> as it is, the script makes three writes and ends normally; the
  file then holds the line \<^verbatim>\<open>1, ramah gacchati,  gam\<close> (the text with its diacritics), with
  two spaces before \<^verbatim>\<open>gam\<close>: the one that ends the separator \<^verbatim>\<open>", "\<close> and the one the
  extraction puts before every root.
\<close>

theorem scenario_1_output:
  "tr '' gam'' = '' gam'' \<Longrightarrow>
     script tr rp scenario_1 = ([''1, '', ramah_gacchati @ '', '', '' gam'' @ [nl]], None) \<and>
     file_text (fst (script tr rp scenario_1)) = ''1, '' @ ramah_gacchati @ '',  gam'' @ [nl]"
  by (simp add: scenario_1_run file_text_def)

theorem scenario_1_output_witness:
  "id '' gam'' = '' gam'' \<and>
   script id (\<lambda>v. []) scenario_1 =
     ([''1, '', ramah_gacchati @ '', '', '' gam'' @ [nl]], None) \<and>
   file_text (fst (script id (\<lambda>v. []) scenario_1)) =
     ''1, '' @ ramah_gacchati @ '',  gam'' @ [nl]"
  using scenario_1_output [of id "\<lambda>v. []"] by (simp add: file_text_def)

text \<open>
  C2 as stated gives the line with a single space before \<^verbatim>\<open>gam\<close>; the file does not
  hold that line.
\<close>

theorem scenario_1_output_counterexample:
  "file_text (fst (script id (\<lambda>v. []) scenario_1)) \<noteq>
     ''1, '' @ ramah_gacchati @ '', gam'' @ [nl]"
  by (simp add: scenario_1_run file_text_def)

text \<open>
  C3 (amended). For a document whose decomposition is well formed, the extraction ends
  without an exception and the root string is the concatenation of the root values, each
  prefixed by a single space, in outer-group-then-inner-token order; token-mappings
  without a root add nothing. When no root value is empty or has a space in it, the
  space-separated tokens of the root string are exactly these root values, as many as
  there are root-bearing token-mappings.
\<close>

theorem extracted_roots:
  "getitem doc ''dcsAnalysisDecomposition'' = Inr (JArr decomps) \<Longrightarrow>
   decomposition decomps \<Longrightarrow>
     extract_roots doc = Inr (join_roots (roots_of decomps)) \<and>
     (list_all (\<lambda>r. r \<noteq> [] \<and> CHR '' '' \<notin> set r) (roots_of decomps) \<longrightarrow>
        space_tokens (join_roots (roots_of decomps)) = roots_of decomps)"
  using outer_loop_roots [of decomps "[]"] space_tokens_join [of "roots_of decomps"]
  by (simp add: extract_roots_def)

theorem extracted_roots_witness:
  "getitem (JObj [(''dcsAnalysisDecomposition'', JArr two_groups)]) ''dcsAnalysisDecomposition''
     = Inr (JArr two_groups) \<and>
   decomposition two_groups \<and>
   roots_of two_groups = [''gam'', ''as''] \<and>
   list_all (\<lambda>r. r \<noteq> [] \<and> CHR '' '' \<notin> set r) (roots_of two_groups) \<and>
   extract_roots (JObj [(''dcsAnalysisDecomposition'', JArr two_groups)]) = Inr '' gam as'' \<and>
   space_tokens '' gam as'' = [''gam'', ''as'']"
proof -
  have g: "getitem (JObj [(''dcsAnalysisDecomposition'', JArr two_groups)])
      ''dcsAnalysisDecomposition'' = Inr (JArr two_groups)"
    by simp
  have d: "decomposition two_groups"
    by (simp add: decomposition_def two_groups_def token_mapping_def)
  have r: "roots_of two_groups = [''gam'', ''as'']"
    by (simp add: roots_of_def two_groups_def root_of_def)
  have j: "join_roots [''gam'', ''as''] = '' gam as''"
    by (simp add: join_roots_def)
  have l: "list_all (\<lambda>r. r \<noteq> [] \<and> CHR '' '' \<notin> set r) (roots_of two_groups)"
    by (simp add: r)
  from extracted_roots [OF g d] l r j g d show ?thesis by simp
qed

text \<open>
  C3 as stated counts the tokens for every document. A root value with a space in it
  is one root and two tokens: the decomposition \<^verbatim>\<open>[[{"root":"a b"}]]\<close> has one
  root-bearing token-mapping, and the root string \<^verbatim>\<open>" a b"\<close> extracted from it has two
  space-separated tokens.
\<close>

theorem extracted_roots_counterexample:
  "getitem spaced_root_sentence ''dcsAnalysisDecomposition'' =
     Inr (JArr [JArr [JObj [(''root'', JStr ''a b'')]]]) \<and>
   decomposition [JArr [JObj [(''root'', JStr ''a b'')]]] \<and>
   roots_of [JArr [JObj [(''root'', JStr ''a b'')]]] = [''a b''] \<and>
   extract_roots spaced_root_sentence = Inr '' a b'' \<and>
   space_tokens '' a b'' = [''a'', ''b''] \<and>
   length (space_tokens '' a b'') \<noteq> length (roots_of [JArr [JObj [(''root'', JStr ''a b'')]]])"
  by (simp add: spaced_root_sentence_def roots_of_def root_of_def extract_roots_def
      space_tokens_def decomposition_def token_mapping_def)

text \<open>
  C4. The test of the filter holds exactly for the documents whose \<^verbatim>\<open>_id\<close> is a string
  that begins with \<^verbatim>\<open>sentence_\<close>, and the generator yields only documents of the input
  that pass it. When every document has a string identifier, it yields exactly those
  documents, in order, and raises nothing. A document whose identifier does not begin
  with \<^verbatim>\<open>sentence_\<close> leaves no trace: the run is the same as on the input without it.
\<close>

theorem sentence_filter:
  "(is_sentence d = Inr True \<longleftrightarrow> (\<exists>r. getitem d ''_id'' = Inr (JStr (''sentence_'' @ r)))) \<and>
   set (fst (sentences docs)) \<subseteq> {x \<in> set docs. is_sentence x = Inr True} \<and>
   (list_all has_identifier docs \<longrightarrow>
      sentences docs = (filter (\<lambda>x. is_sentence x = Inr True) docs, None)) \<and>
   (is_sentence d = Inr False \<longrightarrow> run tr rp (pre @ d # post) = run tr rp (pre @ post))"
  using is_sentence_True [of d] sentences_subset [of docs] sentences_filter [of docs]
    sentences_skip [of d pre post]
  by (simp add: run_def)

theorem sentence_filter_witness:
  "is_sentence sentence_1 = Inr True \<and>
   getitem sentence_1 ''_id'' = Inr (JStr (''sentence_'' @ ''1'')) \<and>
   list_all has_identifier [meta_1, sentence_1] \<and>
   sentences [meta_1, sentence_1] = ([sentence_1], None) \<and>
   is_sentence meta_1 = Inr False \<and>
   run id (\<lambda>v. []) ([] @ meta_1 # [sentence_1]) = run id (\<lambda>v. []) ([] @ [sentence_1])"
proof -
  have m: "is_sentence meta_1 = Inr False"
    by (rule meta_1_is_sentence)
  have h: "list_all has_identifier [meta_1, sentence_1]"
    by (simp add: has_identifier_def meta_1_def sentence_1_def)
  have i: "getitem sentence_1 ''_id'' = Inr (JStr (''sentence_'' @ ''1''))"
    by (simp add: sentence_1_def)
  from sentence_filter [of meta_1 "[meta_1, sentence_1]" id "\<lambda>v. []" "[]" "[sentence_1]"] m h
  have "sentences [meta_1, sentence_1] =
      (filter (\<lambda>x. is_sentence x = Inr True) [meta_1, sentence_1], None)"
    and "run id (\<lambda>v. []) ([] @ meta_1 # [sentence_1]) = run id (\<lambda>v. []) ([] @ [sentence_1])"
    by blast+
  with m h i sentence_1_is_sentence show ?thesis by simp
qed

text \<open>
  C6. The transliterator is the identity on unmapped input: a string in which no
  cluster of the table is recognized comes back unchanged, and a character at which no
  cluster is recognized is copied as it is, whatever follows it. The function is total
  and returns a string in every case: unmapped input is no error.
\<close>

theorem unmapped_passthrough:
  "(unmapped tab t \<longrightarrow> transliterate tab t = t) \<and>
   (recognized tab (c # cs) = None \<longrightarrow> transliterate tab (c # cs) = c # transliterate tab cs)"
  by (simp add: unmapped_id)

theorem unmapped_passthrough_witness:
  "unmapped sample_table ''1, x y'' \<and>
   transliterate sample_table ''1, x y'' = ''1, x y'' \<and>
   recognized sample_table ''xkh'' = None \<and>
   transliterate sample_table ''xkh'' = CHR ''x'' # transliterate sample_table ''kh'' \<and>
   transliterate sample_table ''xkh'' = ''xK''"
proof -
  have u: "unmapped sample_table ''1, x y''"
    by (simp add: recognized_def sample_table_def)
  have r: "recognized sample_table ''xkh'' = None"
    by (simp add: recognized_def sample_table_def)
  have k: "transliterate sample_table ''kh'' = ''K''"
    by (simp add: recognized_def sample_table_def)
  from unmapped_passthrough [of sample_table "''1, x y''" "CHR ''x''" "''kh''"] u r k
  show ?thesis by simp
qed

text \<open>
  C7 (amended). The writes that end a line are at most as many as the documents of the
  input, whatever the documents hold. When no string written has a line feed before its
  last character, that is, when no \<^verbatim>\<open>dcsId\<close>, text or transliterated root string has one,
  the file has at most as many lines as the input has documents.
\<close>

theorem line_bound:
  "lines_written (fst (run tr rp docs)) \<le> length docs \<and>
   (list_all (\<lambda>w. nl \<notin> set (butlast w)) (fst (run tr rp docs)) \<longrightarrow>
      line_count (file_text (fst (run tr rp docs))) \<le> length docs)"
  using run_lines [of tr rp docs] line_count_writes [of "fst (run tr rp docs)"] by simp

theorem line_bound_witness:
  "lines_written (fst (run id (\<lambda>v. []) [sentence_1])) \<le> length [sentence_1] \<and>
   list_all (\<lambda>w. nl \<notin> set (butlast w)) (fst (run id (\<lambda>v. []) [sentence_1])) \<and>
   line_count (file_text (fst (run id (\<lambda>v. []) [sentence_1]))) \<le> length [sentence_1]"
proof -
  have h: "list_all (\<lambda>w. nl \<notin> set (butlast w)) (fst (run id (\<lambda>v. []) [sentence_1]))"
    by (simp add: sentence_1_run ramah_gacchati_def butlast_append)
  from line_bound [of id "\<lambda>v. []" "[sentence_1]"] h show ?thesis by blast
qed

text \<open>
  C7 as stated bounds the lines of the file for every input. The script writes the text
  as it is, so a line feed inside it starts a new line: the one document
  \<^verbatim>\<open>{"_id":"sentence_1","dcsId":1,"text":"a\nb","dcsAnalysisDecomposition":[]}\<close> gives a
  file of two lines.
\<close>

theorem line_bound_counterexample:
  "file_text (fst (run id (\<lambda>v. []) [two_line_sentence])) = ''1, a'' @ [nl] @ ''b, '' @ [nl] \<and>
   line_count (file_text (fst (run id (\<lambda>v. []) [two_line_sentence]))) = 2 \<and>
   \<not> line_count (file_text (fst (run id (\<lambda>v. []) [two_line_sentence])))
       \<le> length [two_line_sentence]"
  by (simp add: two_line_run file_text_def line_count_def)

text \<open>
  C8 (amended). When a document \<open>d\<close> of the input is a dict without \<^verbatim>\<open>_id\<close>, the run ends
  with an uncaught exception in every case, and the documents after \<open>d\<close> play no part.
  When the documents before \<open>d\<close> run through without an exception, it is the \<^verbatim>\<open>KeyError\<close>
  of the filter at \<open>d\<close>, and the file holds what those documents wrote; when they do
  not, the run is the one of the documents before \<open>d\<close>, with its own exception.
\<close>

theorem missing_identifier:
  "getitem d ''_id'' = Inl KeyError \<Longrightarrow>
     snd (run tr rp (pre @ d # post)) \<noteq> None \<and>
     (run tr rp pre = (out, None) \<longrightarrow> run tr rp (pre @ d # post) = (out, Some KeyError)) \<and>
     (snd (run tr rp pre) \<noteq> None \<longrightarrow> run tr rp (pre @ d # post) = run tr rp pre)"
proof -
  assume "getitem d ''_id'' = Inl KeyError"
  then have d: "is_sentence d = Inl KeyError"
    by (simp add: is_sentence_def)
  note s = sentences_missing [OF d, of pre post]
  have 1: "snd (run tr rp (pre @ d # post)) \<noteq> None"
    by (simp add: run_def s finish_Some)
  have 2: "run tr rp (pre @ d # post) = (out, Some KeyError)" if "run tr rp pre = (out, None)"
    using that by (auto simp: run_def s finish_def split: sum.splits option.splits)
  have 3: "run tr rp (pre @ d # post) = run tr rp pre" if "snd (run tr rp pre) \<noteq> None"
    using that by (auto simp: run_def s finish_def split: sum.splits option.splits)
  from 1 2 3 show ?thesis by blast
qed

theorem missing_identifier_witness:
  "getitem (JObj []) ''_id'' = Inl KeyError \<and>
   run id (\<lambda>v. []) [sentence_1] =
     ([''1, '', ramah_gacchati @ '', '', '' gam'' @ [nl]], None) \<and>
   run id (\<lambda>v. []) ([sentence_1] @ JObj [] # [sentence_1]) =
     ([''1, '', ramah_gacchati @ '', '', '' gam'' @ [nl]], Some KeyError) \<and>
   snd (run id (\<lambda>v. []) [bare_sentence]) \<noteq> None \<and>
   run id (\<lambda>v. []) ([bare_sentence] @ JObj [] # []) = run id (\<lambda>v. []) [bare_sentence]"
proof -
  have k: "getitem (JObj []) ''_id'' = Inl KeyError" by simp
  have r: "run id (\<lambda>v. []) [sentence_1] =
      ([''1, '', ramah_gacchati @ '', '', '' gam'' @ [nl]], None)"
    by (simp add: sentence_1_run)
  have b: "snd (run id (\<lambda>v. []) [bare_sentence]) \<noteq> None"
    by (simp add: bare_sentence_run)
  from missing_identifier [OF k, of id "\<lambda>v. []" "[sentence_1]" "[sentence_1]"] r
  have 1: "run id (\<lambda>v. []) ([sentence_1] @ JObj [] # [sentence_1]) =
     ([''1, '', ramah_gacchati @ '', '', '' gam'' @ [nl]], Some KeyError)"
    by blast
  from missing_identifier [OF k, of id "\<lambda>v. []" "[bare_sentence]" "[]"] b
  have 2: "run id (\<lambda>v. []) ([bare_sentence] @ JObj [] # []) = run id (\<lambda>v. []) [bare_sentence]"
    by blast
  from k r 1 b 2 show ?thesis by blast
qed

text \<open>
  C8 as stated names the \<^verbatim>\<open>KeyError\<close> for every input with such a document. On
  \<^verbatim>\<open>[{"_id":"sentence_2"}, {}]\<close> the second document has no \<^verbatim>\<open>_id\<close>, and the run ends at
  the first one with a \<^verbatim>\<open>NameError\<close>, before the filter sees the second.
\<close>

theorem missing_identifier_counterexample:
  "getitem (JObj []) ''_id'' = Inl KeyError \<and>
   run id (\<lambda>v. []) [bare_sentence, JObj []] = ([], Some NameError)"
proof -
  have "is_sentence (JObj []) = Inl KeyError"
    by (simp add: is_sentence_def)
  then show ?thesis
    by (simp add: run_def bare_sentence_is_sentence body_absent bare_sentence_absent
        write_roots_def finish_def)
qed

text \<open>
  C9. When the loaded value is a dict whose \<^verbatim>\<open>docs\<close> is the empty list, the script makes
  no write and ends normally: the output file is empty.
\<close>

theorem empty_docs:
  "getitem loaded ''docs'' = Inr (JArr []) \<Longrightarrow>
     script tr rp loaded = ([], None) \<and> file_text (fst (script tr rp loaded)) = []"
  by (simp add: script_def iter_sentences_def finish_def file_text_def)

theorem empty_docs_witness:
  "getitem (JObj [(''docs'', JArr [])]) ''docs'' = Inr (JArr []) \<and>
   script id (\<lambda>v. []) (JObj [(''docs'', JArr [])]) = ([], None) \<and>
   file_text (fst (script id (\<lambda>v. []) (JObj [(''docs'', JArr [])]))) = []"
  using empty_docs [of "JObj [(''docs'', JArr [])]" id "\<lambda>v. []"] by (simp add: file_text_def)

text \<open>
  C10. Let \<open>d\<close> be the first sentence document of the input: the documents before it have
  identifiers that do not begin with \<^verbatim>\<open>sentence_\<close>. When \<open>d\<close> has no
  \<^verbatim>\<open>dcsAnalysisDecomposition\<close>, the accumulator is read before any assignment: the run
  ends with a \<^verbatim>\<open>NameError\<close> and nothing has been written. When \<open>d\<close> has the field, the
  run does not end with a \<^verbatim>\<open>NameError\<close>, whatever follows. In general a run ends with a
  \<^verbatim>\<open>NameError\<close> exactly when the first document the generator yields lacks the field.
\<close>

theorem unbound_accumulator:
  "list_all (\<lambda>x. is_sentence x = Inr False) pre \<Longrightarrow> is_sentence d = Inr True \<Longrightarrow>
     (contains ''dcsAnalysisDecomposition'' d = Inr False \<longrightarrow>
        run tr rp (pre @ d # post) = ([], Some NameError)) \<and>
     (contains ''dcsAnalysisDecomposition'' d = Inr True \<longrightarrow>
        snd (run tr rp (pre @ d # post)) \<noteq> Some NameError) \<and>
     (snd (run tr rp docs) = Some NameError \<longleftrightarrow>
        (\<exists>x ys. fst (sentences docs) = x # ys \<and>
           contains ''dcsAnalysisDecomposition'' x = Inr False))"
proof -
  assume pre: "list_all (\<lambda>x. is_sentence x = Inr False) pre" and d: "is_sentence d = Inr True"
  note y = sentences_first [OF pre d, of post]
  have 1: "run tr rp (pre @ d # post) = ([], Some NameError)"
    if "contains ''dcsAnalysisDecomposition'' d = Inr False"
    using that by (simp add: run_def y body_absent write_roots_def finish_def)
  have 2: "snd (run tr rp (pre @ d # post)) \<noteq> Some NameError"
    if "contains ''dcsAnalysisDecomposition'' d = Inr True"
    using that by (simp add: run_NameError y)
  from 1 2 run_NameError [of tr rp docs] show ?thesis by blast
qed

theorem unbound_accumulator_witness:
  "list_all (\<lambda>x. is_sentence x = Inr False) [meta_1] \<and>
   is_sentence bare_sentence = Inr True \<and>
   contains ''dcsAnalysisDecomposition'' bare_sentence = Inr False \<and>
   run id (\<lambda>v. []) ([meta_1] @ bare_sentence # [sentence_1]) = ([], Some NameError) \<and>
   is_sentence sentence_1 = Inr True \<and>
   contains ''dcsAnalysisDecomposition'' sentence_1 = Inr True \<and>
   snd (run id (\<lambda>v. []) ([meta_1] @ sentence_1 # [bare_sentence])) \<noteq> Some NameError"
proof -
  have m: "list_all (\<lambda>x. is_sentence x = Inr False) [meta_1]"
    by (simp add: meta_1_is_sentence)
  from unbound_accumulator [OF m bare_sentence_is_sentence, of id "\<lambda>v. []" "[sentence_1]"]
    bare_sentence_absent
  have 1: "run id (\<lambda>v. []) ([meta_1] @ bare_sentence # [sentence_1]) = ([], Some NameError)"
    by blast
  from unbound_accumulator [OF m sentence_1_is_sentence, of id "\<lambda>v. []" "[bare_sentence]"]
    sentence_1_present
  have 2: "snd (run id (\<lambda>v. []) ([meta_1] @ sentence_1 # [bare_sentence])) \<noteq> Some NameError"
    by blast
  from m bare_sentence_is_sentence bare_sentence_absent 1 sentence_1_is_sentence
    sentence_1_present 2
  show ?thesis by blast
qed

end
